theory Spec2Isabelle
  imports Main
begin

section \<open>The ShellCheck lint provider of vscode-shell\<close>

text \<open>
  A shallow embedding of the parts of the linter provider (class \<open>ShellCheckProvider\<close>),
  of \<open>settings.ts\<close>, \<open>fix-all.ts\<close> and \<open>utils/tool-check.ts\<close> that the specification
  talks about. Each mutable \<open>Map\<close> of the provider is a HOL map, each method that
  mutates the provider takes the state and returns the new one.
\<close>

subsection \<open>Reconciliation store: \<open>setResultCollections\<close>\<close>

text \<open>
  \<open>ParseResult\<close> (declared in \<open>parser.ts\<close>) pairs a diagnostic with an optional code
  action. The diagnostic and the action types are those of the editor and stay abstract.
\<close>

record ('d, 'a) ParseResult =
  diagnostic :: 'd
  codeAction :: "'a option"

type_synonym uri = string

text \<open>
  The two stores of the provider: \<open>diagnosticCollection\<close> (the editor's collection, whose
  \<open>set\<close> replaces and whose \<open>delete\<close> removes the entry of one resource) and
  \<open>codeActionCollection\<close>, both keyed by the document URI.
\<close>

record ('d, 'a) collections =
  diagnosticCollection :: "uri \<rightharpoonup> 'd list"
  codeActionCollection :: "uri \<rightharpoonup> ('d, 'a) ParseResult list"

text \<open>
  \<^verbatim>\<open>
  private setResultCollections(uri, results?: ParseResult[] | null) {
    if (!results || results.length === 0) {
      this.diagnosticCollection.delete(uri);
      this.codeActionCollection.delete(uri.toString());
      return;
    }
    const diagnostics = results.map((result) => result.diagnostic);
    this.diagnosticCollection.set(uri, diagnostics);
    this.codeActionCollection.set(uri.toString(), results);
  }
  \<close>
  The optional, nullable parameter is an \<open>option\<close>: \<open>None\<close> is \<open>null\<close> or \<open>undefined\<close>.
\<close>

definition setResultCollections ::
  "uri \<Rightarrow> ('d, 'a) ParseResult list option \<Rightarrow>
   ('d, 'a, 'z) collections_scheme \<Rightarrow> ('d, 'a, 'z) collections_scheme" where
  "setResultCollections u results st =
     (case results of
        None \<Rightarrow> st\<lparr>diagnosticCollection := (diagnosticCollection st)(u := None),
                    codeActionCollection := (codeActionCollection st)(u := None)\<rparr>
      | Some rs \<Rightarrow>
          if length rs = 0
          then st\<lparr>diagnosticCollection := (diagnosticCollection st)(u := None),
                   codeActionCollection := (codeActionCollection st)(u := None)\<rparr>
          else st\<lparr>diagnosticCollection := (diagnosticCollection st)(u \<mapsto> map diagnostic rs),
                   codeActionCollection := (codeActionCollection st)(u \<mapsto> rs)\<rparr>)"

subsection \<open>Strings\<close>

text \<open>
  A JavaScript string is a sequence of UTF-16 code units, here natural numbers. The texts
  that come from a process, an error object or a document are of this type; configuration
  values, paths and URIs keep the type \<^typ>\<open>string\<close>. \<open>js\<close> embeds an ASCII literal.
\<close>

type_synonym jsstring = "nat list"

definition js :: "string \<Rightarrow> jsstring" where
  "js s = map of_char s"

definition startsWith :: "'a list \<Rightarrow> 'a list \<Rightarrow> bool" where
  "startsWith s p \<longleftrightarrow> take (length p) s = p"

text \<open>\<open>s.indexOf(pat)\<close>: the least position where \<open>pat\<close> starts; \<open>None\<close> is \<open>-1\<close>.\<close>

fun indexOf :: "'a list \<Rightarrow> 'a list \<Rightarrow> nat option" where
  "indexOf [] pat = (if pat = [] then Some 0 else None)"
| "indexOf (c # cs) pat =
     (if startsWith (c # cs) pat then Some 0 else map_option Suc (indexOf cs pat))"

definition includes_str :: "'a list \<Rightarrow> 'a list \<Rightarrow> bool" where
  "includes_str s pat \<longleftrightarrow> indexOf s pat \<noteq> None"

text \<open>
  The white space of the regular expression class \<open>\s\<close>, which is also what \<open>trim\<close>
  removes: tab, line feed, vertical tab, form feed, carriage return, space, U+00A0, U+1680,
  U+2000 to U+200A, U+2028, U+2029, U+202F, U+205F, U+3000 and U+FEFF.
\<close>

definition isWhitespace :: "nat \<Rightarrow> bool" where
  "isWhitespace c \<longleftrightarrow>
     c \<in> set [0x09, 0x0A, 0x0B, 0x0C, 0x0D, 0x20, 0xA0, 0x1680, 0x2028, 0x2029, 0x202F,
               0x205F, 0x3000, 0xFEFF]
     \<or> (0x2000 \<le> c \<and> c \<le> 0x200A)"

definition trim :: "jsstring \<Rightarrow> jsstring" where
  "trim s = rev (dropWhile isWhitespace (rev (dropWhile isWhitespace s)))"

text \<open>
  \<open>s.split(/\s/u)\<close>: every single white-space code unit separates two pieces, so the
  result is never empty and may hold empty pieces.
\<close>

fun split_whitespace :: "jsstring \<Rightarrow> jsstring list" where
  "split_whitespace [] = [[]]"
| "split_whitespace (c # cs) =
     (if isWhitespace c then [] # split_whitespace cs
      else (case split_whitespace cs of
              [] \<Rightarrow> [[c]]
            | t # ts \<Rightarrow> (c # t) # ts))"

text \<open>
  \<open>String.prototype.toLowerCase\<close> follows the case mappings of Unicode, which can change
  the length of a text: U+0130 becomes the two code units U+0069 U+0307. It is a parameter
  (\<open>toLowerCase\<close>) of every function below that calls it.
\<close>

subsection \<open>Thrown values and the tool status\<close>

text \<open>
  A value caught by \<open>catch (error: unknown)\<close>. \<open>errorLooksLikeMissingExecutable\<close> reads the
  fields below from it, each of which may be absent or of another type; \<open>NotAnObject\<close>
  stands for \<open>null\<close>, \<open>undefined\<close> and every primitive. \<open>instanceOfError\<close> is the outcome of
  \<open>error instanceof Error\<close>.
\<close>

datatype js_field = Absent | Str jsstring | Num int

record error_object =
  instanceOfError :: bool
  code :: js_field
  errno :: js_field
  exitCode :: "int option"
  stderr :: "jsstring option"
  stdout :: "jsstring option"
  shortMessage :: "jsstring option"
  originalMessage :: "jsstring option"
  message :: "jsstring option"

datatype thrown = NotAnObject | Object error_object

text \<open>\<open>new Error(msg)\<close>: an \<open>Error\<close> instance that carries a message and nothing else.\<close>

definition new_Error :: "jsstring \<Rightarrow> thrown" where
  "new_Error msg =
     Object \<lparr>instanceOfError = True, code = Absent, errno = Absent, exitCode = None,
             stderr = None, stdout = None, shortMessage = None, originalMessage = None,
             message = Some msg\<rparr>"

text \<open>
  \<^verbatim>\<open>
  type ToolStatus =
    | { ok: true; version: semver.SemVer }
    | { ok: false; reason: "executableNotFound" | "executionFailed" };
  \<close>
  The version type of the \<open>semver\<close> package stays abstract (\<open>'v\<close>).
\<close>

datatype reason = executableNotFound | executionFailed

datatype 'v ToolStatus = Ok 'v | NotOk reason

fun ok :: "'v ToolStatus \<Rightarrow> bool" where
  "ok (Ok v) = True"
| "ok (NotOk r) = False"

text \<open>
  The texts searched by \<open>errorLooksLikeMissingExecutable\<close>, in the order of the source:
  the fields that are non-empty strings, lower-cased.
\<close>

definition haystacks :: "(jsstring \<Rightarrow> jsstring) \<Rightarrow> error_object \<Rightarrow> jsstring list" where
  "haystacks toLowerCase err =
     map toLowerCase
       (filter (\<lambda>v. length v > 0)
          (concat (map (\<lambda>f. case f of None \<Rightarrow> [] | Some v \<Rightarrow> [v])
             [stderr err, stdout err, shortMessage err, originalMessage err, message err])))"

definition missingPhrase :: "jsstring \<Rightarrow> bool" where
  "missingPhrase text \<longleftrightarrow>
     includes_str text (js ''command not found'') \<or>
     includes_str text (js ''no such file or directory'') \<or>
     includes_str text (js ''is not recognized as an internal or external command'') \<or>
     includes_str text (js ''is not recognised as an internal or external command'')"

text \<open>
  \<^verbatim>\<open>
  const code = typeof err.code === "string" ? err.code : undefined;
  const errno = typeof err.errno === "string" ? err.errno : undefined;
  const missingCodes = new Set(["ENOENT"]);
  if ((code && missingCodes.has(code)) || (errno && missingCodes.has(errno))) return true;
  const numericExitCode = typeof err.code === "number" ? err.code : err.exitCode;
  if (numericExitCode === 127 || numericExitCode === 9009) return true;
  ... return haystacks.some((text) => text.includes(...) || ...);
  \<close>
\<close>

definition numericExitCode :: "error_object \<Rightarrow> int option" where
  "numericExitCode err = (case code err of Num n \<Rightarrow> Some n | _ \<Rightarrow> exitCode err)"

fun errorLooksLikeMissingExecutable :: "(jsstring \<Rightarrow> jsstring) \<Rightarrow> thrown \<Rightarrow> bool" where
  "errorLooksLikeMissingExecutable toLowerCase NotAnObject = False"
| "errorLooksLikeMissingExecutable toLowerCase (Object err) =
     (if code err = Str (js ''ENOENT'') \<or> errno err = Str (js ''ENOENT'') then True
      else if numericExitCode err = Some 127 \<or> numericExitCode err = Some 9009 then True
      else list_ex missingPhrase (haystacks toLowerCase err))"

fun isError :: "thrown \<Rightarrow> bool" where
  "isError NotAnObject = False"
| "isError (Object err) = instanceOfError err"

definition toolStatusByError :: "(jsstring \<Rightarrow> jsstring) \<Rightarrow> thrown \<Rightarrow> 'v ToolStatus" where
  "toolStatusByError toLowerCase error =
     (if isError error \<and> errorLooksLikeMissingExecutable toLowerCase error
      then NotOk executableNotFound
      else NotOk executionFailed)"

subsection \<open>Version probe: \<open>parseToolVersion\<close> and \<open>getToolVersion\<close>\<close>

text \<open>
  \<^verbatim>\<open>
  export function parseToolVersion(stdout: string): semver.SemVer {
    const lower = stdout.toLowerCase();
    const prefix = "version:";
    const index = lower.indexOf(prefix);
    if (index === -1) throw new Error(`Unexpected response from ShellCheck: ${stdout}`);
    const remainder = stdout.slice(index + prefix.length).trim();
    const token = remainder.split(/\s/u)[0] ?? "";
    const normalized = token.startsWith("v") ? token.slice(1) : token;
    const version = semver.parse(normalized);
    if (!version) throw new Error(`Unable to parse ShellCheck version: ${token}`);
    return version;
  }
  \<close>
  \<open>semver.parse\<close> belongs to the \<open>semver\<close> package and is a parameter: it returns \<open>None\<close>
  (\<open>null\<close>) on a string that is no semantic version. A \<open>throw\<close> is the left summand. The
  index is found in the lower-cased copy and used on the output itself.
\<close>

definition parseToolVersion ::
  "(jsstring \<Rightarrow> jsstring) \<Rightarrow> (jsstring \<Rightarrow> 'v option) \<Rightarrow> jsstring \<Rightarrow> thrown + 'v" where
  "parseToolVersion toLowerCase semver_parse out =
     (let lower = toLowerCase out; prefix = js ''version:'' in
      (case indexOf lower prefix of
         None \<Rightarrow> Inl (new_Error (js ''Unexpected response from ShellCheck: '' @ out))
       | Some index \<Rightarrow>
           (let remainder = trim (drop (index + length prefix) out);
                token = (case split_whitespace remainder of [] \<Rightarrow> [] | t # ts \<Rightarrow> t);
                normalized = (if startsWith token (js ''v'') then drop 1 token else token)
            in (case semver_parse normalized of
                  None \<Rightarrow> Inl (new_Error (js ''Unable to parse ShellCheck version: '' @ token))
                | Some version \<Rightarrow> Inr version))))"

text \<open>
  \<open>getToolVersion\<close> runs the executable with \<open>-V\<close> and parses its standard output. The
  outcome of the process call is the parameter \<open>spawned\<close>: \<open>Inl\<close> the value \<open>execa\<close>
  rejects with, \<open>Inr\<close> the captured standard output.
\<close>

definition getToolVersion ::
  "(jsstring \<Rightarrow> jsstring) \<Rightarrow> (jsstring \<Rightarrow> 'v option) \<Rightarrow> thrown + jsstring \<Rightarrow> thrown + 'v" where
  "getToolVersion toLowerCase semver_parse spawned =
     (case spawned of
        Inl error \<Rightarrow> Inl error
      | Inr out \<Rightarrow> parseToolVersion toLowerCase semver_parse out)"

subsection \<open>Settings\<close>

text \<open>
  The resolved settings of one document (\<open>settings.ts\<close>). The \<open>fileMatcher\<close> object, which
  only the trigger policy consults, is left out.
\<close>

record Executable =
  path :: string
  bundled :: bool

datatype RunTrigger = onSave | onType | manual

record ShellCheckSettings =
  enabled :: bool
  enableQuickFix :: bool
  executable :: Executable
  trigger :: RunTrigger
  exclude :: "string list"
  customArgs :: "string list"
  ignoreFileSchemes :: "string set"
  useWorkspaceRootAsCwd :: bool

subsection \<open>The provider state and its error notifications\<close>

text \<open>
  What \<open>vscode.window.showErrorMessage\<close> is called with. The first message is
  ``ShellCheck executable not found. Install ShellCheck or set ... to the binary location.''
  with the items ``Configure Path'' and ``Installation Guide''; the second is
  ``Failed to run shellcheck: [code] message''; the third ``Failed to run shellcheck:
  unknown error''.
\<close>

datatype notification =
    ExecutableNotFoundMessage
  | FailedToRunMessage js_field "jsstring option"
  | UnknownErrorMessage

text \<open>
  The private fields of \<open>ShellCheckProvider\<close>. \<open>shown\<close> is not a field of the class: it logs
  the calls of \<open>showErrorMessage\<close> in order, each with the \<open>executablePath\<close> argument of
  the call that made it, so that notifications can be counted per path.
\<close>

record ('d, 'a, 'v) provider = "('d, 'a) collections" +
  settingsByUri :: "uri \<rightharpoonup> ShellCheckSettings"
  toolStatusByPath :: "string \<rightharpoonup> 'v ToolStatus"
  notifiedMissingExecutable :: "string set"
  shown :: "(string option \<times> notification) list"

definition initial_provider :: "('d, 'a, 'v) provider" where
  "initial_provider =
     \<lparr>diagnosticCollection = Map.empty, codeActionCollection = Map.empty,
      settingsByUri = Map.empty, toolStatusByPath = Map.empty,
      notifiedMissingExecutable = {}, shown = []\<rparr>"

text \<open>
  \<^verbatim>\<open>
  private async showShellCheckError(err: unknown, executablePath?: string) {
    const missingExecutable = errorLooksLikeMissingExecutable(err);
    if (missingExecutable && executablePath
        && this.notifiedMissingExecutable.has(executablePath)) return;
    if (err && err instanceof Error) {
      if (missingExecutable) { message = `ShellCheck executable not found. ...`; ... }
      else { message = `Failed to run shellcheck: [${error.code}] ${error.message}`; }
    } else { message = `Failed to run shellcheck: unknown error`; }
    const selected = await vscode.window.showErrorMessage(message, ...items);
    if (missingExecutable && executablePath)
      this.notifiedMissingExecutable.add(executablePath);
    ...
  }
  \<close>
  The method is asynchronous. It runs in one stretch up to \<open>await showErrorMessage\<close>, and
  continues only when the user has closed the message; until then other handlers of the
  provider run. The two stretches are two functions: \<open>showShellCheckError_begin\<close> ends with
  the message on the screen (or with the early return), \<open>showShellCheckError_end\<close> is the
  continuation of a call that has shown a message. An absent or empty \<open>executablePath\<close>
  is falsy. What follows the choice of an item (opening the settings or the installation
  guide) does not touch the provider and is left out.
\<close>

fun alreadyNotified :: "string option \<Rightarrow> string set \<Rightarrow> bool" where
  "alreadyNotified None notified = False"
| "alreadyNotified (Some p) notified = (p \<noteq> [] \<and> p \<in> notified)"

fun remember :: "string option \<Rightarrow> string set \<Rightarrow> string set" where
  "remember None notified = notified"
| "remember (Some p) notified = (if p \<noteq> [] then insert p notified else notified)"

fun errorMessage :: "thrown \<Rightarrow> bool \<Rightarrow> notification" where
  "errorMessage NotAnObject missingExecutable = UnknownErrorMessage"
| "errorMessage (Object error) missingExecutable =
     (if instanceOfError error
      then (if missingExecutable then ExecutableNotFoundMessage
            else FailedToRunMessage (code error) (message error))
      else UnknownErrorMessage)"

definition showShellCheckError_begin ::
  "(jsstring \<Rightarrow> jsstring) \<Rightarrow> thrown \<Rightarrow> string option \<Rightarrow>
   ('d, 'a, 'v) provider \<Rightarrow> ('d, 'a, 'v) provider" where
  "showShellCheckError_begin toLowerCase err executablePath st =
     (let missingExecutable = errorLooksLikeMissingExecutable toLowerCase err in
      if missingExecutable \<and> alreadyNotified executablePath (notifiedMissingExecutable st)
      then st
      else st\<lparr>shown := shown st @ [(executablePath, errorMessage err missingExecutable)]\<rparr>)"

definition showShellCheckError_end ::
  "(jsstring \<Rightarrow> jsstring) \<Rightarrow> thrown \<Rightarrow> string option \<Rightarrow>
   ('d, 'a, 'v) provider \<Rightarrow> ('d, 'a, 'v) provider" where
  "showShellCheckError_end toLowerCase err executablePath st =
     (let missingExecutable = errorLooksLikeMissingExecutable toLowerCase err in
      if missingExecutable
      then st\<lparr>notifiedMissingExecutable := remember executablePath (notifiedMissingExecutable st)\<rparr>
      else st)"

text \<open>
  \<^verbatim>\<open>
  private readonly handleDidChangeConfiguration = (e) => {
    if (!checkIfConfigurationChanged(e)) return;
    this.settingsByUri.clear();
    this.toolStatusByPath.clear();
    void this.triggerLintForEntireWorkspace();
  };
  \<close>
  The parameter is the outcome of \<open>checkIfConfigurationChanged\<close>. The lint runs that the
  handler starts reach the provider as later stretches.
\<close>

definition handleDidChangeConfiguration ::
  "bool \<Rightarrow> ('d, 'a, 'v) provider \<Rightarrow> ('d, 'a, 'v) provider" where
  "handleDidChangeConfiguration changed st =
     (if \<not> changed then st
      else st\<lparr>settingsByUri := Map.empty, toolStatusByPath := Map.empty\<rparr>)"

text \<open>
  \<^verbatim>\<open>
  private async updateConfiguration(textDocument) {
    const settings = await getWorkspaceSettings(this.context, textDocument);
    this.settingsByUri.set(textDocument.uri.toString(), settings);
    this.setResultCollections(textDocument.uri);
    if (settings.enabled && !this.toolStatusByPath.has(settings.executable.path)) {
      let toolStatus: ToolStatus;
      try {
        toolStatus = { ok: true, version: await getToolVersion(settings.executable.path) };
      } catch (error: unknown) {
        await this.showShellCheckError(error, settings.executable.path);
        toolStatus = toolStatusByError(error);
      }
      this.toolStatusByPath.set(settings.executable.path, toolStatus);
      ...
    }
  }
  private async handleShellCheckExecutionError(error: unknown, executablePath: string) {
    await this.showShellCheckError(error, executablePath);
    this.toolStatusByPath.set(executablePath, toolStatusByError(error));
  }
  \<close>
  \<open>updateConfiguration\<close> stops at three awaits. \<open>updateConfiguration_begin\<close> is the stretch
  after the settings have been read (they are a parameter): it stores the settings and
  clears the results of the document; \<open>startsProbe\<close> is the test it ends with. When the
  probe has returned (\<open>spawned\<close>, as for \<open>getToolVersion\<close>), a failure goes through the two
  stretches of \<open>showShellCheckError\<close>, and the last stretch stores \<open>probedToolStatus\<close>, the
  value of \<open>toolStatus\<close>, with \<open>setToolStatus\<close>. \<open>handleShellCheckExecutionError\<close> is the
  two stretches of \<open>showShellCheckError\<close> followed by \<open>setToolStatus\<close> with the status of
  the error. The upgrade prompt that may follow a successful probe does not touch the
  provider.
\<close>

definition updateConfiguration_begin ::
  "uri \<Rightarrow> ShellCheckSettings \<Rightarrow> ('d, 'a, 'v) provider \<Rightarrow> ('d, 'a, 'v) provider" where
  "updateConfiguration_begin u settings st =
     setResultCollections u None (st\<lparr>settingsByUri := (settingsByUri st)(u \<mapsto> settings)\<rparr>)"

definition startsProbe :: "ShellCheckSettings \<Rightarrow> ('d, 'a, 'v) provider \<Rightarrow> bool" where
  "startsProbe settings st \<longleftrightarrow>
     enabled settings \<and> toolStatusByPath st (path (executable settings)) = None"

definition probedToolStatus ::
  "(jsstring \<Rightarrow> jsstring) \<Rightarrow> (jsstring \<Rightarrow> 'v option) \<Rightarrow> thrown + jsstring \<Rightarrow> 'v ToolStatus" where
  "probedToolStatus toLowerCase semver_parse spawned =
     (case getToolVersion toLowerCase semver_parse spawned of
        Inr version \<Rightarrow> Ok version
      | Inl error \<Rightarrow> toolStatusByError toLowerCase error)"

definition setToolStatus ::
  "string \<Rightarrow> 'v ToolStatus \<Rightarrow> ('d, 'a, 'v) provider \<Rightarrow> ('d, 'a, 'v) provider" where
  "setToolStatus executablePath toolStatus st =
     st\<lparr>toolStatusByPath := (toolStatusByPath st)(executablePath \<mapsto> toolStatus)\<rparr>"

text \<open>
  A run of the provider is a sequence of such stretches, each executed without
  interruption, in the order in which the event loop runs them. Every sequence is
  admitted, so the runs include every interleaving of overlapping calls. The handler of
  configuration changes is a parameter of the step, so that the same run can be made with
  the handler the specification describes.
\<close>

datatype 'v stretch =
    DidChangeConfiguration bool
  | UpdateConfigurationBegun uri ShellCheckSettings
  | ErrorMessageShown thrown "string option"
  | ErrorMessageClosed thrown "string option"
  | ToolStatusStored string "'v ToolStatus"

fun step_with ::
  "(bool \<Rightarrow> ('d, 'a, 'v) provider \<Rightarrow> ('d, 'a, 'v) provider) \<Rightarrow> (jsstring \<Rightarrow> jsstring) \<Rightarrow>
   ('d, 'a, 'v) provider \<Rightarrow> 'v stretch \<Rightarrow> ('d, 'a, 'v) provider" where
  "step_with onConfig toLowerCase st (DidChangeConfiguration changed) = onConfig changed st"
| "step_with onConfig toLowerCase st (UpdateConfigurationBegun u settings) =
     updateConfiguration_begin u settings st"
| "step_with onConfig toLowerCase st (ErrorMessageShown error p) =
     showShellCheckError_begin toLowerCase error p st"
| "step_with onConfig toLowerCase st (ErrorMessageClosed error p) =
     showShellCheckError_end toLowerCase error p st"
| "step_with onConfig toLowerCase st (ToolStatusStored p toolStatus) =
     setToolStatus p toolStatus st"

definition run ::
  "(jsstring \<Rightarrow> jsstring) \<Rightarrow> 'v stretch list \<Rightarrow> ('d, 'a, 'v) provider \<Rightarrow> ('d, 'a, 'v) provider" where
  "run toLowerCase stretches st =
     foldl (step_with handleDidChangeConfiguration toLowerCase) st stretches"

text \<open>How often the ``executable not found'' message was shown by calls for path \<open>p\<close>.\<close>

definition notFoundCount :: "string \<Rightarrow> ('d, 'a, 'v) provider \<Rightarrow> nat" where
  "notFoundCount p st = length (filter (\<lambda>n. n = (Some p, ExecutableNotFoundMessage)) (shown st))"

text \<open>
  The handler as the specification words it: a configuration change starts a new epoch
  for the notification, which is to forget the paths already notified as well.
\<close>

definition spec_handleDidChangeConfiguration ::
  "bool \<Rightarrow> ('d, 'a, 'v) provider \<Rightarrow> ('d, 'a, 'v) provider" where
  "spec_handleDidChangeConfiguration changed st =
     (if \<not> changed then st
      else st\<lparr>settingsByUri := Map.empty, toolStatusByPath := Map.empty,
              notifiedMissingExecutable := {}\<rparr>)"

definition spec_run ::
  "(jsstring \<Rightarrow> jsstring) \<Rightarrow> 'v stretch list \<Rightarrow> ('d, 'a, 'v) provider \<Rightarrow> ('d, 'a, 'v) provider" where
  "spec_run toLowerCase stretches st =
     foldl (step_with spec_handleDidChangeConfiguration toLowerCase) st stretches"

subsection \<open>Settings resolution: \<open>getWorkspaceSettings\<close>\<close>

text \<open>
  \<^verbatim>\<open>const validErrorCodePattern = /^(?:SC)?(\d{4})$/;\<close>
  \<open>exec\<close> on this pattern, returning capture group 1 when the whole string matches. The
  optional group is greedy: the match with \<open>SC\<close> consumed is tried first, then the one
  without it. \<open>\d\<close> (no \<open>u\<close> flag) is an ASCII digit; \<open>$\<close> (no \<open>m\<close> flag) is the end of
  the string.
\<close>

definition isDigit :: "char \<Rightarrow> bool" where
  "isDigit c \<longleftrightarrow> 48 \<le> (of_char c :: nat) \<and> (of_char c :: nat) \<le> 57"

definition fourDigits :: "string \<Rightarrow> string option" where
  "fourDigits s = (if length s = 4 \<and> list_all isDigit s then Some s else None)"

definition validErrorCodePattern_exec :: "string \<Rightarrow> string option" where
  "validErrorCodePattern_exec pattern =
     (case (if startsWith pattern ''SC'' then fourDigits (drop 2 pattern) else None) of
        Some digits \<Rightarrow> Some digits
      | None \<Rightarrow> fourDigits pattern)"

text \<open>
  \<^verbatim>\<open>
  const filteredExcludes: string[] = [];
  for (const pattern of settings.exclude) {
    const match = new RegExp(validErrorCodePattern).exec(pattern);
    if (match?.[1]) filteredExcludes.push(match[1]);
  }
  settings.exclude = filteredExcludes;
  \<close>
\<close>

definition filterExcludes :: "string list \<Rightarrow> string list" where
  "filterExcludes configured =
     foldl (\<lambda>filteredExcludes pattern.
              case validErrorCodePattern_exec pattern of
                None \<Rightarrow> filteredExcludes
              | Some m \<Rightarrow> if m \<noteq> [] then filteredExcludes @ [m] else filteredExcludes)
           [] configured"

definition runTriggerFrom :: "string \<Rightarrow> RunTrigger" where
  "runTriggerFrom v =
     (if v = ''onSave'' then onSave else if v = ''onType'' then onType else manual)"

text \<open>
  The configuration section as \<open>section.get(key, default)\<close> reads it: an unset key is
  \<open>None\<close>. \<open>getExecutable\<close> probes the file system for the bundled binary; the executable it
  resolves to is a parameter, and so is \<open>substitutePath\<close>, which replaces the workspace
  folder placeholders of an argument.
\<close>

record configuration_section =
  enable :: "bool option"
  enableQuickFix_key :: "bool option"
  run_key :: "string option"
  exclude_key :: "string list option"
  customArgs_key :: "string list option"
  ignoreFileSchemes_key :: "string list option"
  useWorkspaceRootAsCwd_key :: "bool option"

definition getWorkspaceSettings ::
  "(string \<Rightarrow> string) \<Rightarrow> Executable \<Rightarrow> configuration_section \<Rightarrow> ShellCheckSettings" where
  "getWorkspaceSettings substitutePath resolvedExecutable section =
     (let settings =
        \<lparr>enabled = (case enable section of None \<Rightarrow> True | Some b \<Rightarrow> b),
         enableQuickFix = (case enableQuickFix_key section of None \<Rightarrow> False | Some b \<Rightarrow> b),
         executable = resolvedExecutable,
         trigger = runTriggerFrom (case run_key section of None \<Rightarrow> ''onType'' | Some v \<Rightarrow> v),
         exclude = (case exclude_key section of None \<Rightarrow> [] | Some xs \<Rightarrow> xs),
         customArgs = map substitutePath
                        (case customArgs_key section of None \<Rightarrow> [] | Some xs \<Rightarrow> xs),
         ignoreFileSchemes =
           set (case ignoreFileSchemes_key section of
                  None \<Rightarrow> [''git'', ''gitfs'', ''output''] | Some xs \<Rightarrow> xs),
         useWorkspaceRootAsCwd =
           (case useWorkspaceRootAsCwd_key section of None \<Rightarrow> False | Some b \<Rightarrow> b)\<rparr>
      in settings\<lparr>exclude := filterExcludes (exclude settings)\<rparr>)"

subsection \<open>Argument vector of a lint run: \<open>runLint\<close>\<close>

text \<open>\<open>Array.prototype.join\<close>.\<close>

fun join :: "string \<Rightarrow> string list \<Rightarrow> string" where
  "join sep [] = []"
| "join sep [x] = x"
| "join sep (x # y # ys) = x @ sep @ join sep (y # ys)"

text \<open>
  \<^verbatim>\<open>
  const toolStatus = this.toolStatusByPath.get(settings.executable.path);
  if (!toolStatus || !toolStatus.ok) return;
  ...
  let args = ["-f", parser.outputFormat];
  if (settings.exclude.length > 0) args = [...args, "-e", settings.exclude.join(",")];
  const fileExt = path.extname(textDocument.fileName);
  if (fileExt === ".bash" || fileExt === ".ksh" || fileExt === ".dash")
    args = [...args, "-s", fileExt.slice(1)];
  if (settings.customArgs.length > 0) args = [...args, ...settings.customArgs];
  args = [...args, "-"];
  \<close>
  The output format chosen by the parser (\<open>parser.ts\<close>) and the extension that Node's
  \<open>path.extname\<close> gives for the file name are parameters. The result is the vector handed
  to \<open>execa\<close>, or \<open>None\<close> when the method returns before it starts the tool.
\<close>

definition runLint_args ::
  "'v ToolStatus option \<Rightarrow> string \<Rightarrow> ShellCheckSettings \<Rightarrow> string \<Rightarrow> string list option" where
  "runLint_args toolStatus outputFormat settings fileExt =
     (case toolStatus of
        None \<Rightarrow> None
      | Some status \<Rightarrow>
          if \<not> ok status then None
          else
            (let args0 = [''-f'', outputFormat];
                 args1 = (if length (exclude settings) > 0
                          then args0 @ [''-e'', join '','' (exclude settings)] else args0);
                 args2 = (if fileExt = ''.bash'' \<or> fileExt = ''.ksh'' \<or> fileExt = ''.dash''
                          then args1 @ [''-s'', drop 1 fileExt] else args1);
                 args3 = (if length (customArgs settings) > 0
                          then args2 @ customArgs settings else args2)
             in Some (args3 @ [''-''])))"

subsection \<open>Positions, ranges and text edits of the editor\<close>

text \<open>
  \<open>vscode.Position\<close>, \<open>vscode.Range\<close> and \<open>vscode.TextEdit\<close>, as the extension host
  implements them: positions are ordered by line, then by character; a range contains a
  position that is neither before its start nor after its end, and contains a range when
  it contains both its ends.
\<close>

record Position =
  line :: nat
  character :: nat

record Range =
  start :: Position
  end' :: Position

record TextEdit =
  range' :: Range
  newText :: jsstring

definition isBefore :: "Position \<Rightarrow> Position \<Rightarrow> bool" where
  "isBefore a b \<longleftrightarrow> line a < line b \<or> (line a = line b \<and> character a < character b)"

definition containsPosition :: "Range \<Rightarrow> Position \<Rightarrow> bool" where
  "containsPosition r p \<longleftrightarrow> \<not> isBefore p (start r) \<and> \<not> isBefore (end' r) p"

definition contains :: "Range \<Rightarrow> Range \<Rightarrow> bool" where
  "contains r other \<longleftrightarrow> containsPosition r (start other) \<and> containsPosition r (end' other)"

definition TextEdit_insert :: "Position \<Rightarrow> jsstring \<Rightarrow> TextEdit" where
  "TextEdit_insert position txt = \<lparr>range' = \<lparr>start = position, end' = position\<rparr>, newText = txt\<rparr>"

subsection \<open>Fix-all aggregation: \<open>mergeEdits\<close> and \<open>buildFixAllAction\<close>\<close>

text \<open>
  A \<open>vscode.WorkspaceEdit\<close> restricted to text edits, as the extension host implements
  it: the array of its edits, each with its resource, in the order in which they were
  added. \<open>get\<close> collects the edits of a resource; \<open>set\<close> with an array of edits pushes each
  of them onto the array and removes nothing; \<open>entries()\<close> groups the edits by resource,
  the resources in the order of their first edit.
\<close>

type_synonym WorkspaceEdit = "(uri \<times> TextEdit) list"

definition WorkspaceEdit_get :: "WorkspaceEdit \<Rightarrow> uri \<Rightarrow> TextEdit list" where
  "WorkspaceEdit_get w u = map snd (filter (\<lambda>candidate. fst candidate = u) w)"

definition WorkspaceEdit_set :: "uri \<Rightarrow> TextEdit list \<Rightarrow> WorkspaceEdit \<Rightarrow> WorkspaceEdit" where
  "WorkspaceEdit_set u edits w = w @ map (Pair u) edits"

definition WorkspaceEdit_entries :: "WorkspaceEdit \<Rightarrow> (uri \<times> TextEdit list) list" where
  "WorkspaceEdit_entries w =
     map (\<lambda>u. (u, WorkspaceEdit_get w u)) (rev (remdups (rev (map fst w))))"

text \<open>
  \<^verbatim>\<open>
  function mergeEdits(target: vscode.WorkspaceEdit, source: vscode.WorkspaceEdit): void {
    for (const [uri, edits] of source.entries()) {
      const existing = target.get(uri) ?? [];
      const merged = [...existing];
      for (const edit of edits) {
        if (!existing.some((existingEdit) => existingEdit.range.contains(edit.range))) {
          merged.push(edit);
        }
      }
      target.set(uri, merged);
    }
  }
  \<close>
\<close>

definition mergeEntry :: "WorkspaceEdit \<Rightarrow> uri \<times> TextEdit list \<Rightarrow> WorkspaceEdit" where
  "mergeEntry target entry =
     (let u = fst entry; edits = snd entry;
          existing = WorkspaceEdit_get target u;
          merged = existing @
            filter (\<lambda>edit. \<not> list_ex (\<lambda>existingEdit. contains (range' existingEdit) (range' edit))
                                 existing)
                   edits
      in WorkspaceEdit_set u merged target)"

definition mergeEdits :: "WorkspaceEdit \<Rightarrow> WorkspaceEdit \<Rightarrow> WorkspaceEdit" where
  "mergeEdits target source = foldl mergeEntry target (WorkspaceEdit_entries source)"

text \<open>
  A \<open>vscode.CodeAction\<close>, with the fields the aggregation reads and writes.
\<close>

record 'd CodeAction =
  title :: string
  isPreferred :: "bool option"
  edit :: "WorkspaceEdit option"
  diagnostics :: "'d list option"

text \<open>
  \<open>collectShellCheckActions\<close> asks the editor for the code actions at the range of every
  ShellCheck diagnostic of the document, in the order of the diagnostics, and keeps those
  whose title starts with ``ShellCheck: '', that are preferred and that carry an edit. The
  actions the editor answers with, one list per diagnostic, are the parameter.
\<close>

definition collectShellCheckActions :: "'d CodeAction list list \<Rightarrow> 'd CodeAction list" where
  "collectShellCheckActions provided =
     concat (map (filter (\<lambda>action. startsWith (title action) ''ShellCheck: ''
                                    \<and> isPreferred action = Some True
                                    \<and> edit action \<noteq> None))
                 provided)"

text \<open>
  \<^verbatim>\<open>
  const actions = await collectShellCheckActions(document);
  if (actions.length === 0) return undefined;
  const fixAll = new vscode.CodeAction("ShellCheck: Fix all auto-fixable issues", ...);
  const aggregatedEdit = new vscode.WorkspaceEdit();
  const aggregatedDiagnostics: vscode.Diagnostic[] = [];
  for (const action of actions) {
    if (action.diagnostics) aggregatedDiagnostics.push(...action.diagnostics);
    mergeEdits(aggregatedEdit, action.edit!);
  }
  if (aggregatedDiagnostics.length > 0) fixAll.diagnostics = aggregatedDiagnostics;
  fixAll.edit = aggregatedEdit;
  return fixAll;
  \<close>
\<close>

definition buildFixAllAction :: "'d CodeAction list list \<Rightarrow> 'd CodeAction option" where
  "buildFixAllAction provided =
     (let actions = collectShellCheckActions provided in
      if length actions = 0 then None
      else
        (let aggregatedDiagnostics =
               concat (map (\<lambda>action. case diagnostics action of None \<Rightarrow> [] | Some ds \<Rightarrow> ds)
                           actions);
             aggregatedEdit =
               foldl (\<lambda>aggregated action.
                        case edit action of
                          None \<Rightarrow> aggregated
                        | Some e \<Rightarrow> mergeEdits aggregated e)
                     [] actions
         in Some \<lparr>title = ''ShellCheck: Fix all auto-fixable issues'',
                  isPreferred = None,
                  edit = Some aggregatedEdit,
                  diagnostics = (if length aggregatedDiagnostics > 0
                                 then Some aggregatedDiagnostics else None)\<rparr>))"

text \<open>
  Two ranges overlap, in the sense the specification uses for conflicting fixes, when
  they share a stretch of text: each starts before the other ends.
\<close>

definition spec_overlap :: "Range \<Rightarrow> Range \<Rightarrow> bool" where
  "spec_overlap a b \<longleftrightarrow> isBefore (start a) (end' b) \<and> isBefore (start b) (end' a)"

subsection \<open>Suppression command: \<open>disableCheckForLine\<close>\<close>

text \<open>
  A document is the list of its lines, without their line terminators.
  \<open>document.lineAt(n)\<close> throws when there is no line \<open>n\<close>; the line it returns computes
  \<open>firstNonWhitespaceCharacterIndex\<close> as the length of the match of \<open>/^(\s*)/\<close>, the
  leading run of white space (the length of a line that is all white space).
\<close>

datatype command_error = IllegalLine nat

record TextLine =
  text' :: jsstring
  firstNonWhitespaceCharacterIndex :: nat

definition lineAt :: "jsstring list \<Rightarrow> nat \<Rightarrow> command_error + TextLine" where
  "lineAt doc n =
     (if n < length doc
      then Inr \<lparr>text' = doc ! n,
                firstNonWhitespaceCharacterIndex = length (takeWhile isWhitespace (doc ! n))\<rparr>
      else Inl (IllegalLine n))"

text \<open>
  The editor splits a text into lines at every carriage return followed by a line feed,
  at every other carriage return and at every other line feed. The first parameter of
  \<open>split_lines_after\<close> tells whether the code unit before was a carriage return, whose
  line feed then belongs to the same line break.
\<close>

fun split_lines_after :: "bool \<Rightarrow> jsstring \<Rightarrow> jsstring list" where
  "split_lines_after cr [] = [[]]"
| "split_lines_after cr (c # cs) =
     (if c = 0x0A \<and> cr then split_lines_after False cs
      else if c = 0x0D then [] # split_lines_after True cs
      else if c = 0x0A then [] # split_lines_after False cs
      else (case split_lines_after False cs of
              [] \<Rightarrow> [[c]]
            | l # ls \<Rightarrow> (c # l) # ls))"

definition split_lines :: "jsstring \<Rightarrow> jsstring list" where
  "split_lines s = split_lines_after False s"

text \<open>
  \<open>vscode.workspace.applyEdit\<close> for one text edit whose range lies inside the document:
  the text between the start and the end of the range is replaced by the new text, and
  the result is split into lines again.
\<close>

definition applyEdit :: "jsstring list \<Rightarrow> TextEdit \<Rightarrow> jsstring list" where
  "applyEdit doc e =
     (let s = start (range' e); f = end' (range' e) in
      if line s \<le> line f \<and> line f < length doc
      then take (line s) doc
           @ split_lines (take (character s) (doc ! line s) @ newText e
                          @ drop (character f) (doc ! line f))
           @ drop (Suc (line f)) doc
      else doc)"

text \<open>
  \<^verbatim>\<open>
  private async disableCheckForLine(textDocument, ruleId: string, range: vscode.Range) {
    if (!this.isAllowedTextDocument(textDocument)) return;
    const targetLine = textDocument.lineAt(range.start.line);
    const indent = targetLine.text.slice(
      0, Math.max(0, targetLine.firstNonWhitespaceCharacterIndex));
    const textEdit = vscode.TextEdit.insert(
      new vscode.Position(range.start.line, targetLine.firstNonWhitespaceCharacterIndex),
      `# shellcheck disable=${ruleId}\n${indent}`);
    const edit = new vscode.WorkspaceEdit();
    edit.set(textDocument.uri, [textEdit]);
    await vscode.workspace.applyEdit(edit);
  }
  \<close>
  The first parameter is the outcome of \<open>isAllowedTextDocument\<close>. The result is the
  document after the command.
\<close>

definition disableCheckForLine ::
  "bool \<Rightarrow> jsstring list \<Rightarrow> jsstring \<Rightarrow> Range \<Rightarrow> command_error + jsstring list" where
  "disableCheckForLine allowed doc ruleId r =
     (if \<not> allowed then Inr doc
      else
        (case lineAt doc (line (start r)) of
           Inl err \<Rightarrow> Inl err
         | Inr targetLine \<Rightarrow>
             (let indent = take (max 0 (firstNonWhitespaceCharacterIndex targetLine))
                             (text' targetLine);
                  textEdit =
                    TextEdit_insert
                      \<lparr>line = line (start r),
                       character = firstNonWhitespaceCharacterIndex targetLine\<rparr>
                      (js ''# shellcheck disable='' @ ruleId @ [0x0A] @ indent)
              in Inr (applyEdit doc textEdit))))"

subsection \<open>Debounced scheduling: \<open>triggerLint\<close> and the delayer\<close>

text \<open>
  Modelled from the spec: \<open>ThrottledDelayer\<close> of \<open>utils/async.ts\<close>, which the linter
  imports and whose source is missing. Per key the scheduler is idle, has
  a timer pending for the task of the latest call, or has a task in flight together with
  the task of a rerun, if one was asked for meanwhile. A call with no timer and no task in
  flight starts the timer; a call with a timer pending restarts it with the task of that
  call; a call with a task in flight records that task as the rerun. When the timer
  expires its task starts; when a task completes the recorded rerun starts at once, and
  without one the scheduler is idle again. The second component of \<open>expire\<close> and
  \<open>complete\<close> lists the tasks that start.
\<close>

datatype 'task delayer = Idle | TimerPending 'task | Running "'task option"

fun delayer_trigger :: "'task \<Rightarrow> 'task delayer \<Rightarrow> 'task delayer" where
  "delayer_trigger task Idle = TimerPending task"
| "delayer_trigger task (TimerPending previous) = TimerPending task"
| "delayer_trigger task (Running rerun) = Running (Some task)"

fun delayer_expire :: "'task delayer \<Rightarrow> 'task delayer \<times> 'task list" where
  "delayer_expire (TimerPending task) = (Running None, [task])"
| "delayer_expire d = (d, [])"

fun delayer_complete :: "'task delayer \<Rightarrow> 'task delayer \<times> 'task list" where
  "delayer_complete (Running None) = (Idle, [])"
| "delayer_complete (Running (Some task)) = (Running None, [task])"
| "delayer_complete d = (d, [])"

text \<open>
  The \<open>delayers\<close> map of the provider, each delayer with the delay it was created with,
  and the log of the task executions started, in order.
\<close>

record 'task scheduler =
  delayers :: "string \<rightharpoonup> nat \<times> 'task delayer"
  executed :: "(string \<times> 'task) list"

text \<open>
  The end of \<open>triggerLint\<close>, reached when the document passes the eligibility checks:
  \<^verbatim>\<open>
  const key = textDocument.uri.toString();
  let delayer = this.delayers.get(key);
  if (!delayer) {
    delayer = new ThrottledDelayer<void>(settings.trigger === RunTrigger.onType ? 250 : 0);
    this.delayers.set(key, delayer);
  }
  void delayer.trigger(() => this.runLint(textDocument, settings));
  \<close>
  The task is the closure over the document and the settings of this call.
\<close>

definition triggerLint ::
  "string \<Rightarrow> ShellCheckSettings \<Rightarrow> 'task \<Rightarrow> 'task scheduler \<Rightarrow> 'task scheduler" where
  "triggerLint key settings task st =
     (let delayer = (case delayers st key of
                       None \<Rightarrow> (if trigger settings = onType then 250 else 0, Idle)
                     | Some d \<Rightarrow> d)
      in st\<lparr>delayers := (delayers st)(key \<mapsto> (fst delayer, delayer_trigger task (snd delayer)))\<rparr>)"

definition timerExpired :: "string \<Rightarrow> 'task scheduler \<Rightarrow> 'task scheduler" where
  "timerExpired key st =
     (case delayers st key of
        None \<Rightarrow> st
      | Some d \<Rightarrow>
          (let r = delayer_expire (snd d)
           in st\<lparr>delayers := (delayers st)(key \<mapsto> (fst d, fst r)),
                  executed := executed st @ map (Pair key) (snd r)\<rparr>))"

definition taskCompleted :: "string \<Rightarrow> 'task scheduler \<Rightarrow> 'task scheduler" where
  "taskCompleted key st =
     (case delayers st key of
        None \<Rightarrow> st
      | Some d \<Rightarrow>
          (let r = delayer_complete (snd d)
           in st\<lparr>delayers := (delayers st)(key \<mapsto> (fst d, fst r)),
                  executed := executed st @ map (Pair key) (snd r)\<rparr>))"

text \<open>A burst of calls for one key: one call of \<open>triggerLint\<close> per task, in order.\<close>

definition burst ::
  "string \<Rightarrow> ShellCheckSettings \<Rightarrow> 'task list \<Rightarrow> 'task scheduler \<Rightarrow> 'task scheduler" where
  "burst key settings tasks st = foldl (\<lambda>s task. triggerLint key settings task s) st tasks"

subsection \<open>The properties of the specification, in its words\<close>

text \<open>
  A thrown error signals a missing executable: it has the error code \<open>ENOENT\<close> (as \<open>code\<close>
  or as \<open>errno\<close>); or its numeric exit code, which is \<open>code\<close> when that is a number and
  \<open>exitCode\<close> otherwise, is 127 or 9009; or one of its captured texts (standard error,
  standard output, or one of the messages built from them) contains, once in lower case,
  one of the phrases ``command not found'', ``no such file or directory'', ``is not
  recognized as an internal or external command'' and its British spelling.
\<close>

definition spec_missing_signal :: "(jsstring \<Rightarrow> jsstring) \<Rightarrow> error_object \<Rightarrow> bool" where
  "spec_missing_signal toLowerCase err \<longleftrightarrow>
     code err = Str (js ''ENOENT'') \<or> errno err = Str (js ''ENOENT'') \<or>
     (case code err of
        Num n \<Rightarrow> n = 127 \<or> n = 9009
      | _ \<Rightarrow> exitCode err = Some 127 \<or> exitCode err = Some 9009) \<or>
     (\<exists>out \<in> set [stderr err, stdout err, shortMessage err, originalMessage err, message err].
        \<exists>text. out = Some text \<and>
        (\<exists>phrase \<in> set [''command not found'', ''no such file or directory'',
                          ''is not recognized as an internal or external command'',
                          ''is not recognised as an internal or external command''].
           \<exists>before after. toLowerCase text = before @ js phrase @ after))"

text \<open>
  The first white-space delimited token after the first \<open>version:\<close> marker of the output,
  the marker being looked for in the output itself without regard to the case of its
  ASCII letters; and a token without its optional leading \<open>v\<close>.
\<close>

definition asciiLower :: "nat \<Rightarrow> nat" where
  "asciiLower c = (if 65 \<le> c \<and> c \<le> 90 then c + 32 else c)"

definition spec_version_token :: "jsstring \<Rightarrow> jsstring option" where
  "spec_version_token out =
     (case indexOf (map asciiLower out) (js ''version:'') of
        None \<Rightarrow> None
      | Some i \<Rightarrow>
          Some (takeWhile (\<lambda>c. \<not> isWhitespace c)
                  (dropWhile isWhitespace (drop (i + length ''version:'') out))))"

definition spec_strip_v :: "jsstring \<Rightarrow> jsstring" where
  "spec_strip_v tok =
     (case tok of [] \<Rightarrow> [] | c # cs \<Rightarrow> if c = of_char (CHR ''v'') then cs else tok)"

text \<open>
  A configured exclusion entry is valid when, after an optional \<open>SC\<close> prefix, exactly four
  digits remain.
\<close>

definition spec_stripSC :: "string \<Rightarrow> string" where
  "spec_stripSC s = (if startsWith s ''SC'' then drop 2 s else s)"

definition spec_validCode :: "string \<Rightarrow> bool" where
  "spec_validCode s \<longleftrightarrow> length (spec_stripSC s) = 4 \<and> list_all isDigit (spec_stripSC s)"

subsection \<open>Example values\<close>

text \<open>
  The error \<open>execa\<close> rejects with when the executable does not exist, the default
  settings with the fallback executable, a configuration section with valid and invalid
  exclusion entries, a version parser that knows two versions, and a preferred ShellCheck
  quick fix that replaces the characters \<open>from\<close> to \<open>to\<close> of the first line.
  \<open>toLowerCase_example\<close> is \<open>String.prototype.toLowerCase\<close> on the texts of the examples,
  which are made of ASCII code units and of U+0130, the capital I with a dot above, whose
  lower case is the two code units U+0069 U+0307.
\<close>

definition toLowerCase_example :: "jsstring \<Rightarrow> jsstring" where
  "toLowerCase_example s =
     concat (map (\<lambda>c. if c = 0x130 then [0x69, 0x307] else [asciiLower c]) s)"

abbreviation example_enoent :: error_object where
  "example_enoent \<equiv>
     \<lparr>instanceOfError = True, code = Str (js ''ENOENT''), errno = Absent, exitCode = None,
      stderr = None, stdout = None, shortMessage = None, originalMessage = None,
      message = Some (js ''spawn shellcheck ENOENT'')\<rparr>"

abbreviation example_failed :: error_object where
  "example_failed \<equiv>
     \<lparr>instanceOfError = True, code = Absent, errno = Absent, exitCode = Some 2,
      stderr = Some (js ''Unknown flag''), stdout = Some [], shortMessage = None,
      originalMessage = None, message = Some (js ''Command failed'')\<rparr>"

abbreviation example_semver :: "jsstring \<Rightarrow> (nat \<times> nat \<times> nat) option" where
  "example_semver \<equiv>
     (\<lambda>s. if s = js ''0.9.0'' then Some (0, 9, 0)
          else if s = js ''1.2.3'' then Some (1, 2, 3) else None)"

abbreviation example_settings :: ShellCheckSettings where
  "example_settings \<equiv>
     \<lparr>enabled = True, enableQuickFix = False,
      executable = \<lparr>path = ''shellcheck'', bundled = False\<rparr>, trigger = onType,
      exclude = [], customArgs = [], ignoreFileSchemes = {}, useWorkspaceRootAsCwd = False\<rparr>"

abbreviation example_section :: configuration_section where
  "example_section \<equiv>
     \<lparr>enable = None, enableQuickFix_key = None, run_key = None,
      exclude_key = Some [''SC2086'', ''1090'', ''SC12345'', ''2086x'', ''sc2034'', [], ''SC 2154''],
      customArgs_key = None, ignoreFileSchemes_key = None, useWorkspaceRootAsCwd_key = None\<rparr>"

abbreviation example_fix :: "nat \<Rightarrow> nat \<Rightarrow> string \<Rightarrow> nat CodeAction" where
  "example_fix from to replacement \<equiv>
     \<lparr>title = ''ShellCheck: Apply fix for SC2086'', isPreferred = Some True,
      edit = Some [(''file:///a.sh'',
                    \<lparr>range' = \<lparr>start = \<lparr>line = 0, character = from\<rparr>,
                                  end' = \<lparr>line = 0, character = to\<rparr>\<rparr>,
                     newText = js replacement\<rparr>)],
      diagnostics = None\<rparr>"

text \<open>
  The stretches of a provider that probes a missing executable for a document, shows the
  notification, has it closed and stores the status, then sees the configuration change
  and begins to update the configuration of the document again.
\<close>

abbreviation example_stretches :: "(nat \<times> nat \<times> nat) stretch list" where
  "example_stretches \<equiv>
     [UpdateConfigurationBegun ''file:///a.sh'' example_settings,
      ErrorMessageShown (Object example_enoent) (Some ''shellcheck''),
      ErrorMessageClosed (Object example_enoent) (Some ''shellcheck''),
      ToolStatusStored ''shellcheck''
        (probedToolStatus toLowerCase_example example_semver (Inl (Object example_enoent))),
      DidChangeConfiguration True,
      UpdateConfigurationBegun ''file:///a.sh'' example_settings]"

section \<open>Theorems\<close>

subsection \<open>Reconciliation\<close>

text \<open>
  Claim C5. For every document key, \<open>setResultCollections\<close> called with \<open>null\<close> or with an
  empty result list removes both the diagnostics and the cached code actions of the
  document; called with a non-empty list it stores exactly the diagnostics of that list and
  exactly that list, whatever was stored for the key before (replacement, no merge).
\<close>

theorem setResultCollections_clears_or_replaces:
  "diagnosticCollection (setResultCollections u None st) u = None \<and>
   codeActionCollection (setResultCollections u None st) u = None \<and>
   diagnosticCollection (setResultCollections u (Some []) st) u = None \<and>
   codeActionCollection (setResultCollections u (Some []) st) u = None \<and>
   diagnosticCollection (setResultCollections u (Some (r # rs)) st) u
     = Some (map diagnostic (r # rs)) \<and>
   codeActionCollection (setResultCollections u (Some (r # rs)) st) u = Some (r # rs)"
  by (simp add: setResultCollections_def)

text \<open>
  Claim C10. A call of \<open>setResultCollections\<close> for one URI leaves the stored diagnostics and
  the cached code actions of every other document key as they were.
\<close>

theorem setResultCollections_frame:
  "k \<noteq> u \<Longrightarrow>
   diagnosticCollection (setResultCollections u results st) k = diagnosticCollection st k \<and>
   codeActionCollection (setResultCollections u results st) k = codeActionCollection st k"
  by (simp add: setResultCollections_def split: option.splits)

theorem setResultCollections_frame_witness:
  "''file:///b.sh'' \<noteq> ''file:///a.sh'' \<and>
   diagnosticCollection
     (setResultCollections ''file:///a.sh''
        (Some [\<lparr>diagnostic = (2086::nat), codeAction = (None :: unit option)\<rparr>])
        \<lparr>diagnosticCollection = [''file:///b.sh'' \<mapsto> [1072]],
         codeActionCollection =
           [''file:///b.sh'' \<mapsto> [\<lparr>diagnostic = 1072, codeAction = None\<rparr>]]\<rparr>)
     ''file:///b.sh'' = Some [1072] \<and>
   codeActionCollection
     (setResultCollections ''file:///a.sh''
        (Some [\<lparr>diagnostic = (2086::nat), codeAction = (None :: unit option)\<rparr>])
        \<lparr>diagnosticCollection = [''file:///b.sh'' \<mapsto> [1072]],
         codeActionCollection =
           [''file:///b.sh'' \<mapsto> [\<lparr>diagnostic = 1072, codeAction = None\<rparr>]]\<rparr>)
     ''file:///b.sh'' = Some [\<lparr>diagnostic = 1072, codeAction = None\<rparr>]"
proof -
  have ne: "''file:///b.sh'' \<noteq> ''file:///a.sh''" by simp
  show ?thesis
    using ne setResultCollections_frame [OF ne,
      of "Some [\<lparr>diagnostic = (2086::nat), codeAction = (None :: unit option)\<rparr>]"
         "\<lparr>diagnosticCollection = [''file:///b.sh'' \<mapsto> [1072]],
           codeActionCollection =
             [''file:///b.sh'' \<mapsto> [\<lparr>diagnostic = 1072, codeAction = None\<rparr>]]\<rparr>"]
    by simp
qed

subsection \<open>Fix-all aggregation\<close>

text \<open>
  Claim C1. The claim asks that no two ranges of the aggregated fix-all edit overlap, the
  conflicting later fix being dropped. \<open>mergeEdits\<close> drops a candidate only when an edit
  already accepted \<^emph>\<open>contains\<close> its range, and it hands the accepted edits together with
  the new ones to \<open>set\<close>, which adds them to the edits that are already there. Evaluated
  on two preferred fixes of one document that replace characters 0 to 5 and 3 to 8 of the
  first line, \<open>buildFixAllAction\<close> returns the first edit twice and the second once,
  although their ranges overlap; on two fixes that do not overlap (characters 0 to 2 and
  5 to 8) it still returns the first edit twice.
\<close>

theorem buildFixAllAction_keeps_overlapping_edits:
  "map_option edit (buildFixAllAction [[example_fix 0 5 ''one''], [example_fix 3 8 ''two'']])
     = Some (Some
        [(''file:///a.sh'',
          \<lparr>range' = \<lparr>start = \<lparr>line = 0, character = 0\<rparr>, end' = \<lparr>line = 0, character = 5\<rparr>\<rparr>,
           newText = js ''one''\<rparr>),
         (''file:///a.sh'',
          \<lparr>range' = \<lparr>start = \<lparr>line = 0, character = 0\<rparr>, end' = \<lparr>line = 0, character = 5\<rparr>\<rparr>,
           newText = js ''one''\<rparr>),
         (''file:///a.sh'',
          \<lparr>range' = \<lparr>start = \<lparr>line = 0, character = 3\<rparr>, end' = \<lparr>line = 0, character = 8\<rparr>\<rparr>,
           newText = js ''two''\<rparr>)]) \<and>
   spec_overlap \<lparr>start = \<lparr>line = 0, character = 0\<rparr>, end' = \<lparr>line = 0, character = 5\<rparr>\<rparr>
                \<lparr>start = \<lparr>line = 0, character = 3\<rparr>, end' = \<lparr>line = 0, character = 8\<rparr>\<rparr> \<and>
   map_option edit (buildFixAllAction [[example_fix 0 2 ''one''], [example_fix 5 8 ''two'']])
     = Some (Some
        [(''file:///a.sh'',
          \<lparr>range' = \<lparr>start = \<lparr>line = 0, character = 0\<rparr>, end' = \<lparr>line = 0, character = 2\<rparr>\<rparr>,
           newText = js ''one''\<rparr>),
         (''file:///a.sh'',
          \<lparr>range' = \<lparr>start = \<lparr>line = 0, character = 0\<rparr>, end' = \<lparr>line = 0, character = 2\<rparr>\<rparr>,
           newText = js ''one''\<rparr>),
         (''file:///a.sh'',
          \<lparr>range' = \<lparr>start = \<lparr>line = 0, character = 5\<rparr>, end' = \<lparr>line = 0, character = 8\<rparr>\<rparr>,
           newText = js ''two''\<rparr>)])"
  by (simp add: buildFixAllAction_def collectShellCheckActions_def mergeEdits_def mergeEntry_def
        WorkspaceEdit_get_def WorkspaceEdit_set_def WorkspaceEdit_entries_def startsWith_def
        contains_def containsPosition_def isBefore_def spec_overlap_def Let_def js_def)

subsection \<open>Classification of failures\<close>

lemma startsWith_iff: "startsWith s p \<longleftrightarrow> (\<exists>after. s = p @ after)"
  unfolding startsWith_def
  by (metis append_eq_conv_conj append_take_drop_id)

lemma includes_str_iff: "includes_str s p \<longleftrightarrow> (\<exists>before after. s = before @ p @ after)"
proof (induction s)
  case Nil
  then show ?case by (simp add: includes_str_def)
next
  case (Cons c cs)
  have "includes_str (c # cs) p \<longleftrightarrow> startsWith (c # cs) p \<or> includes_str cs p"
    by (simp add: includes_str_def)
  also have "\<dots> \<longleftrightarrow> (\<exists>after. c # cs = p @ after) \<or> (\<exists>before after. cs = before @ p @ after)"
    by (simp only: startsWith_iff Cons.IH)
  also have "\<dots> \<longleftrightarrow> (\<exists>before after. c # cs = before @ p @ after)"
  proof
    assume "(\<exists>after. c # cs = p @ after) \<or> (\<exists>before after. cs = before @ p @ after)"
    then show "\<exists>before after. c # cs = before @ p @ after"
    proof
      assume "\<exists>after. c # cs = p @ after"
      then obtain after where "c # cs = [] @ p @ after" by auto
      then show ?thesis by blast
    next
      assume "\<exists>before after. cs = before @ p @ after"
      then obtain before after where "c # cs = (c # before) @ p @ after" by auto
      then show ?thesis by blast
    qed
  next
    assume "\<exists>before after. c # cs = before @ p @ after"
    then obtain before after where eq: "c # cs = before @ p @ after" by blast
    show "(\<exists>after. c # cs = p @ after) \<or> (\<exists>before after. cs = before @ p @ after)"
    proof (cases before)
      case Nil
      with eq show ?thesis by auto
    next
      case (Cons b bs)
      with eq have "cs = bs @ p @ after" by simp
      then show ?thesis by blast
    qed
  qed
  finally show ?case .
qed

lemma missingPhrase_iff:
  "missingPhrase text \<longleftrightarrow>
     (\<exists>phrase \<in> set [''command not found'', ''no such file or directory'',
                       ''is not recognized as an internal or external command'',
                       ''is not recognised as an internal or external command''].
        \<exists>before after. text = before @ js phrase @ after)"
  by (simp add: missingPhrase_def includes_str_iff)

lemma missingPhrase_Nil: "\<not> missingPhrase []"
  by (simp add: missingPhrase_def includes_str_def js_def)

lemma set_haystacks:
  "set (haystacks toLowerCase err) =
     toLowerCase ` {t. t \<noteq> [] \<and>
        Some t \<in> {stderr err, stdout err, shortMessage err, originalMessage err, message err}}"
  unfolding haystacks_def by (auto split: option.splits)

lemma list_ex_haystacks:
  assumes "toLowerCase [] = []"
  shows "list_ex missingPhrase (haystacks toLowerCase err) \<longleftrightarrow>
     (\<exists>out \<in> set [stderr err, stdout err, shortMessage err, originalMessage err, message err].
        \<exists>text. out = Some text \<and> missingPhrase (toLowerCase text))"
proof -
  have nonempty: "\<And>t. missingPhrase (toLowerCase t) \<Longrightarrow> t \<noteq> []"
    using assms missingPhrase_Nil by auto
  show ?thesis
    unfolding list_ex_iff set_haystacks
    by (auto dest: nonempty)
qed

lemma numeric_exit_code:
  "(numericExitCode err = Some 127 \<or> numericExitCode err = Some 9009) \<longleftrightarrow>
     (case code err of
        Num n \<Rightarrow> n = 127 \<or> n = 9009
      | _ \<Rightarrow> exitCode err = Some 127 \<or> exitCode err = Some 9009)"
  by (simp add: numericExitCode_def split: js_field.splits)

lemma spec_missing_signal_iff:
  assumes "toLowerCase [] = []"
  shows "spec_missing_signal toLowerCase err \<longleftrightarrow>
     errorLooksLikeMissingExecutable toLowerCase (Object err)"
proof -
  have "errorLooksLikeMissingExecutable toLowerCase (Object err) \<longleftrightarrow>
        code err = Str (js ''ENOENT'') \<or> errno err = Str (js ''ENOENT'') \<or>
        (numericExitCode err = Some 127 \<or> numericExitCode err = Some 9009) \<or>
        list_ex missingPhrase (haystacks toLowerCase err)"
    by auto
  then show ?thesis
    unfolding spec_missing_signal_def
    by (simp only: numeric_exit_code list_ex_haystacks [of toLowerCase, OF assms] missingPhrase_iff)
qed

text \<open>
  Claim C6. For every error thrown while the tool is invoked (an instance of \<open>Error\<close>),
  the resulting tool status is ``executable not found'' exactly when the error signals a
  missing executable (an \<open>ENOENT\<close> code, a numeric exit code 127 or 9009, or a captured
  text with one of the ``not found'' phrases), and ``execution failed'' in every other
  case. Of the function that puts a text in lower case only one fact is used: the empty
  text stays empty.
\<close>

theorem toolStatusByError_classifies:
  "instanceOfError err \<Longrightarrow> toLowerCase [] = [] \<Longrightarrow>
   (toolStatusByError toLowerCase (Object err) :: 'v ToolStatus) =
     NotOk (if spec_missing_signal toLowerCase err then executableNotFound else executionFailed)"
  by (simp add: toolStatusByError_def spec_missing_signal_iff)

theorem toolStatusByError_classifies_witness:
  "instanceOfError example_enoent \<and> toLowerCase_example [] = [] \<and>
   (toolStatusByError toLowerCase_example (Object example_enoent) :: nat ToolStatus)
     = NotOk executableNotFound \<and>
   (toolStatusByError toLowerCase_example
      (Object (example_failed\<lparr>errno := Str (js ''ENOENT'')\<rparr>)) :: nat ToolStatus)
     = NotOk executableNotFound \<and>
   (toolStatusByError toLowerCase_example
      (Object (example_failed\<lparr>exitCode := Some 127\<rparr>)) :: nat ToolStatus)
     = NotOk executableNotFound \<and>
   (toolStatusByError toLowerCase_example
      (Object (example_failed\<lparr>exitCode := Some 9009\<rparr>)) :: nat ToolStatus)
     = NotOk executableNotFound \<and>
   (toolStatusByError toLowerCase_example
      (Object (example_failed\<lparr>code := Num 127, exitCode := None\<rparr>)) :: nat ToolStatus)
     = NotOk executableNotFound \<and>
   (toolStatusByError toLowerCase_example
      (Object (example_failed\<lparr>stderr := Some (js ''sh: 1: shellcheck: Command not found'')\<rparr>))
      :: nat ToolStatus)
     = NotOk executableNotFound \<and>
   (toolStatusByError toLowerCase_example
      (Object (example_failed\<lparr>message := Some (js ''spawn: No such file or directory'')\<rparr>))
      :: nat ToolStatus)
     = NotOk executableNotFound \<and>
   (toolStatusByError toLowerCase_example (Object example_failed) :: nat ToolStatus)
     = NotOk executionFailed \<and>
   (toolStatusByError toLowerCase_example
      (Object (example_failed\<lparr>exitCode := Some 126\<rparr>)) :: nat ToolStatus)
     = NotOk executionFailed"
proof -
  have e: "instanceOfError example_enoent" and f: "instanceOfError example_failed"
    by simp_all
  have l: "toLowerCase_example [] = []"
    by (simp add: toLowerCase_example_def)
  show ?thesis
    using e l
      toolStatusByError_classifies [of example_enoent toLowerCase_example, OF e l, where 'v = nat]
      toolStatusByError_classifies [of example_failed toLowerCase_example, OF f l, where 'v = nat]
    by (simp add: toolStatusByError_def numericExitCode_def haystacks_def missingPhrase_def
          includes_str_def startsWith_def toLowerCase_example_def asciiLower_def js_def)
qed

subsection \<open>Version probe\<close>

lemma split_whitespace_nonempty: "split_whitespace s \<noteq> []"
  by (induction s) (auto split: list.splits)

lemma first_piece:
  "(case split_whitespace s of [] \<Rightarrow> [] | t # ts \<Rightarrow> t) = takeWhile (\<lambda>c. \<not> isWhitespace c) s"
  by (induction s) (auto split: list.splits simp: split_whitespace_nonempty)

lemma takeWhile_ignores_tail:
  "\<forall>x \<in> set b. P x \<Longrightarrow> takeWhile (\<lambda>c. \<not> P c) (a @ b) = takeWhile (\<lambda>c. \<not> P c) a"
proof (induction a)
  case Nil
  then show ?case by (cases b) auto
next
  case (Cons x a)
  then show ?case by simp
qed

lemma rev_dropWhile_rev:
  "t = rev (dropWhile P (rev t)) @ rev (takeWhile P (rev t))"
proof -
  have "rev (rev (dropWhile P (rev t)) @ rev (takeWhile P (rev t))) = rev t"
    by simp
  then show ?thesis
    by (simp only: rev_is_rev_conv)
qed

lemma takeWhile_trim:
  "takeWhile (\<lambda>c. \<not> isWhitespace c) (trim s)
     = takeWhile (\<lambda>c. \<not> isWhitespace c) (dropWhile isWhitespace s)"
proof -
  define t where "t = dropWhile isWhitespace s"
  define a where "a = rev (dropWhile isWhitespace (rev t))"
  define b where "b = rev (takeWhile isWhitespace (rev t))"
  have t: "t = a @ b" unfolding a_def b_def by (rule rev_dropWhile_rev)
  have "\<forall>x \<in> set b. isWhitespace x"
    unfolding b_def by (auto dest: set_takeWhileD)
  then have "takeWhile (\<lambda>c. \<not> isWhitespace c) (a @ b) = takeWhile (\<lambda>c. \<not> isWhitespace c) a"
    by (rule takeWhile_ignores_tail)
  then show ?thesis unfolding trim_def t_def[symmetric] a_def[symmetric] t[symmetric] by simp
qed

lemma token_is_first:
  "(case split_whitespace (trim s) of [] \<Rightarrow> [] | t # ts \<Rightarrow> t)
     = takeWhile (\<lambda>c. \<not> isWhitespace c) (dropWhile isWhitespace s)"
  by (simp only: first_piece takeWhile_trim)

lemma strip_v: "(if startsWith tok (js ''v'') then drop 1 tok else tok) = spec_strip_v tok"
  by (cases tok) (auto simp: startsWith_def spec_strip_v_def js_def)

text \<open>
  Where putting the output in lower case only replaces ASCII capitals by their small
  letters, as it does for every ASCII output, \<open>parseToolVersion\<close> parses the first
  white-space delimited token after the marker, and throws when there is no marker or the
  token is no semantic version; the status of a probe that threw is never an \<open>ok\<close> one.
\<close>

lemma parseToolVersion_aligned:
  assumes "toLowerCase out = map asciiLower out"
  shows "parseToolVersion toLowerCase sp out =
     (case spec_version_token out of
        None \<Rightarrow> Inl (new_Error (js ''Unexpected response from ShellCheck: '' @ out))
      | Some tok \<Rightarrow>
          (case sp (spec_strip_v tok) of
             None \<Rightarrow> Inl (new_Error (js ''Unable to parse ShellCheck version: '' @ tok))
           | Some v \<Rightarrow> Inr v))"
proof -
  have len: "length (js ''version:'') = length ''version:''"
    by (simp add: js_def)
  show ?thesis
    unfolding parseToolVersion_def Let_def spec_version_token_def token_is_first strip_v assms len
    by (simp split: option.splits)
qed

lemma probe_failure_not_ok:
  "getToolVersion toLowerCase sp spawned = Inl error \<Longrightarrow>
   \<not> ok (probedToolStatus toLowerCase sp spawned)"
  by (simp add: probedToolStatus_def toolStatusByError_def)

text \<open>
  Claim C7. The claim is about every output of the version probe. \<open>parseToolVersion\<close>
  looks for the marker in the lower-cased copy of the output and cuts the output itself
  at the index it finds there. For the output that is U+0130 followed by
  \<open>version:1.2.3\<close> the lower-cased copy is one code unit longer, the cut falls one code
  unit too far, and the call throws on the token \<open>.2.3\<close>, although the first white-space
  delimited token after the marker is the semantic version \<open>1.2.3\<close>; without the leading
  U+0130 the same output parses to that version.
\<close>

theorem parseToolVersion_cuts_at_lowered_index:
  "parseToolVersion toLowerCase_example example_semver ([0x130] @ js ''version:1.2.3'')
     = Inl (new_Error (js ''Unable to parse ShellCheck version: .2.3'')) \<and>
   spec_version_token ([0x130] @ js ''version:1.2.3'') = Some (js ''1.2.3'') \<and>
   example_semver (spec_strip_v (js ''1.2.3'')) = Some (1, 2, 3) \<and>
   parseToolVersion toLowerCase_example example_semver (js ''version:1.2.3'') = Inr (1, 2, 3)"
  by (simp add: parseToolVersion_def spec_version_token_def spec_strip_v_def
        toLowerCase_example_def asciiLower_def startsWith_def trim_def isWhitespace_def
        new_Error_def js_def Let_def)

subsection \<open>The ``executable not found'' notification\<close>

lemma step_keeps_recorded:
  assumes "p \<in> notifiedMissingExecutable st"
  shows "p \<in> notifiedMissingExecutable (step_with handleDidChangeConfiguration toLowerCase st s)"
proof (cases s)
  case (DidChangeConfiguration changed)
  then show ?thesis using assms by (simp add: handleDidChangeConfiguration_def)
next
  case (UpdateConfigurationBegun u settings)
  then show ?thesis using assms
    by (simp add: updateConfiguration_begin_def setResultCollections_def)
next
  case (ErrorMessageShown error q)
  then show ?thesis using assms by (simp add: showShellCheckError_begin_def Let_def)
next
  case (ErrorMessageClosed error q)
  then show ?thesis using assms
    by (cases q) (simp_all add: showShellCheckError_end_def Let_def)
next
  case (ToolStatusStored q toolStatus)
  then show ?thesis using assms by (simp add: setToolStatus_def)
qed

lemma begin_keeps_count:
  assumes "p \<noteq> []" and "p \<in> notifiedMissingExecutable st"
  shows "notFoundCount p (showShellCheckError_begin toLowerCase error q st) = notFoundCount p st"
proof (cases "errorLooksLikeMissingExecutable toLowerCase error")
  case True
  show ?thesis
  proof (cases "q = Some p")
    case True
    with assms \<open>errorLooksLikeMissingExecutable toLowerCase error\<close> show ?thesis
      by (simp add: showShellCheckError_begin_def)
  next
    case False
    then show ?thesis
      by (simp add: showShellCheckError_begin_def notFoundCount_def Let_def)
  qed
next
  case False
  have "errorMessage error False \<noteq> ExecutableNotFoundMessage"
    by (cases error) simp_all
  with False show ?thesis
    by (simp add: showShellCheckError_begin_def notFoundCount_def Let_def)
qed

lemma step_keeps_count:
  assumes "p \<noteq> []" and "p \<in> notifiedMissingExecutable st"
  shows "notFoundCount p (step_with handleDidChangeConfiguration toLowerCase st s)
           = notFoundCount p st"
proof (cases s)
  case (DidChangeConfiguration changed)
  then show ?thesis by (simp add: handleDidChangeConfiguration_def notFoundCount_def)
next
  case (UpdateConfigurationBegun u settings)
  then show ?thesis
    by (simp add: updateConfiguration_begin_def setResultCollections_def notFoundCount_def)
next
  case (ErrorMessageShown error q)
  then show ?thesis using assms by (simp add: begin_keeps_count)
next
  case (ErrorMessageClosed error q)
  then show ?thesis by (simp add: showShellCheckError_end_def notFoundCount_def Let_def)
next
  case (ToolStatusStored q toolStatus)
  then show ?thesis by (simp add: setToolStatus_def notFoundCount_def)
qed

lemma run_keeps_recorded:
  "p \<noteq> [] \<Longrightarrow> p \<in> notifiedMissingExecutable st \<Longrightarrow>
   p \<in> notifiedMissingExecutable (run toLowerCase stretches st)
   \<and> notFoundCount p (run toLowerCase stretches st) = notFoundCount p st"
  unfolding run_def
proof (induction stretches arbitrary: st)
  case Nil
  then show ?case by simp
next
  case (Cons s stretches)
  let ?st = "step_with handleDidChangeConfiguration toLowerCase st s"
  have "p \<in> notifiedMissingExecutable ?st" and "notFoundCount p ?st = notFoundCount p st"
    using Cons.prems by (simp_all add: step_keeps_recorded step_keeps_count)
  with Cons.IH [of ?st] Cons.prems(1) show ?case by simp
qed

text \<open>
  Claim C2, as the code has it. The claim lets a configuration change start a new epoch in
  which the notification is shown again; the provider never clears
  \<open>notifiedMissingExecutable\<close>, so this fails (see the counterexample below). What holds,
  for every non-empty executable path: a missing-executable failure (an \<open>Error\<close>) for a
  path that is not recorded shows the ``executable not found'' notification; the path is
  recorded when the notification of such a failure is closed; and from then on, through
  every run of the provider, whatever calls overlap in it and whatever configuration
  changes it contains, the path stays recorded, no further ``executable not found''
  notification is shown for it, and a missing-executable failure for it shows nothing at
  all. Nothing is said about the failures for a path that arrive while its first
  notification is still open.
\<close>

theorem recorded_path_not_notified_again:
  assumes "p \<noteq> []"
  shows "(instanceOfError e \<and> errorLooksLikeMissingExecutable toLowerCase (Object e)
            \<and> p \<notin> notifiedMissingExecutable st \<longrightarrow>
          shown (showShellCheckError_begin toLowerCase (Object e) (Some p) st)
            = shown st @ [(Some p, ExecutableNotFoundMessage)]) \<and>
         (errorLooksLikeMissingExecutable toLowerCase err \<longrightarrow>
          p \<in> notifiedMissingExecutable (showShellCheckError_end toLowerCase err (Some p) st)) \<and>
         (p \<in> notifiedMissingExecutable st \<longrightarrow>
          p \<in> notifiedMissingExecutable (run toLowerCase stretches st) \<and>
          notFoundCount p (run toLowerCase stretches st) = notFoundCount p st \<and>
          (errorLooksLikeMissingExecutable toLowerCase err \<longrightarrow>
           showShellCheckError_begin toLowerCase err (Some p) (run toLowerCase stretches st)
             = run toLowerCase stretches st))"
proof (intro conjI impI)
  assume "instanceOfError e \<and> errorLooksLikeMissingExecutable toLowerCase (Object e)
            \<and> p \<notin> notifiedMissingExecutable st"
  then show "shown (showShellCheckError_begin toLowerCase (Object e) (Some p) st)
            = shown st @ [(Some p, ExecutableNotFoundMessage)]"
    by (simp add: showShellCheckError_begin_def)
next
  assume "errorLooksLikeMissingExecutable toLowerCase err"
  with assms show "p \<in> notifiedMissingExecutable (showShellCheckError_end toLowerCase err (Some p) st)"
    by (simp add: showShellCheckError_end_def)
next
  assume rec: "p \<in> notifiedMissingExecutable st"
  with assms have kept: "p \<in> notifiedMissingExecutable (run toLowerCase stretches st)
      \<and> notFoundCount p (run toLowerCase stretches st) = notFoundCount p st"
    by (rule run_keeps_recorded)
  then show "p \<in> notifiedMissingExecutable (run toLowerCase stretches st)"
    and "notFoundCount p (run toLowerCase stretches st) = notFoundCount p st"
    by simp_all
  assume "errorLooksLikeMissingExecutable toLowerCase err"
  with assms kept
  show "showShellCheckError_begin toLowerCase err (Some p) (run toLowerCase stretches st)
          = run toLowerCase stretches st"
    by (simp add: showShellCheckError_begin_def)
qed

theorem recorded_path_not_notified_again_witness:
  "''shellcheck'' \<noteq> [] \<and>
   shown (showShellCheckError_begin toLowerCase_example (Object example_enoent)
            (Some ''shellcheck'')
            (initial_provider :: (unit, unit, nat \<times> nat \<times> nat) provider))
     = [(Some ''shellcheck'', ExecutableNotFoundMessage)] \<and>
   ''shellcheck'' \<in> notifiedMissingExecutable
      (run toLowerCase_example (take 3 example_stretches)
         (initial_provider :: (unit, unit, nat \<times> nat \<times> nat) provider)) \<and>
   notFoundCount ''shellcheck''
      (run toLowerCase_example
         (drop 3 example_stretches
          @ [ErrorMessageShown (Object example_enoent) (Some ''shellcheck''),
             ErrorMessageShown (Object example_enoent) (Some ''shellcheck''),
             ErrorMessageClosed (Object example_enoent) (Some ''shellcheck'')])
         (run toLowerCase_example (take 3 example_stretches)
            (initial_provider :: (unit, unit, nat \<times> nat \<times> nat) provider))) = 1"
proof -
  have ne: "''shellcheck'' \<noteq> []" by simp
  have rec: "''shellcheck'' \<in> notifiedMissingExecutable
      (run toLowerCase_example (take 3 example_stretches)
         (initial_provider :: (unit, unit, nat \<times> nat \<times> nat) provider))"
    by (simp add: run_def updateConfiguration_begin_def showShellCheckError_begin_def
          showShellCheckError_end_def setResultCollections_def initial_provider_def js_def)
  have one: "notFoundCount ''shellcheck''
      (run toLowerCase_example (take 3 example_stretches)
         (initial_provider :: (unit, unit, nat \<times> nat \<times> nat) provider)) = 1"
    by (simp add: run_def updateConfiguration_begin_def showShellCheckError_begin_def
          showShellCheckError_end_def setResultCollections_def initial_provider_def
          notFoundCount_def js_def)
  note t1 = recorded_path_not_notified_again [OF ne, of example_enoent toLowerCase_example
      "initial_provider :: (unit, unit, nat \<times> nat \<times> nat) provider"
      "Object example_enoent" "[]"]
  note t2 = recorded_path_not_notified_again [OF ne, of example_enoent toLowerCase_example
      "run toLowerCase_example (take 3 example_stretches)
         (initial_provider :: (unit, unit, nat \<times> nat \<times> nat) provider)"
      "Object example_enoent"
      "drop 3 example_stretches
          @ [ErrorMessageShown (Object example_enoent) (Some ''shellcheck''),
             ErrorMessageShown (Object example_enoent) (Some ''shellcheck''),
             ErrorMessageClosed (Object example_enoent) (Some ''shellcheck'')]"]
  have first: "shown (showShellCheckError_begin toLowerCase_example (Object example_enoent)
            (Some ''shellcheck'')
            (initial_provider :: (unit, unit, nat \<times> nat \<times> nat) provider))
     = [(Some ''shellcheck'', ExecutableNotFoundMessage)]"
    using t1 by (simp add: initial_provider_def js_def)
  have again: "notFoundCount ''shellcheck''
      (run toLowerCase_example
         (drop 3 example_stretches
          @ [ErrorMessageShown (Object example_enoent) (Some ''shellcheck''),
             ErrorMessageShown (Object example_enoent) (Some ''shellcheck''),
             ErrorMessageClosed (Object example_enoent) (Some ''shellcheck'')])
         (run toLowerCase_example (take 3 example_stretches)
            (initial_provider :: (unit, unit, nat \<times> nat \<times> nat) provider))) = 1"
    using t2 rec one by simp
  show ?thesis
    using ne first rec again by simp
qed

text \<open>
  Claim C2 as stated fails. The executable is missing at the first probe, the
  notification is shown and closed and the status is stored; the configuration changes,
  the provider begins to update the configuration of the document again and, the status
  being gone, starts a second probe, which fails like the first: the provider has shown
  the notification once, where a provider that starts a new epoch at the configuration
  change has shown it twice.
\<close>

theorem notification_epoch_counterexample:
  "startsProbe example_settings
     (run toLowerCase_example example_stretches
        (initial_provider :: (unit, unit, nat \<times> nat \<times> nat) provider)) \<and>
   map snd (shown (run toLowerCase_example
      (example_stretches @ [ErrorMessageShown (Object example_enoent) (Some ''shellcheck'')])
      (initial_provider :: (unit, unit, nat \<times> nat \<times> nat) provider)))
   = [ExecutableNotFoundMessage] \<and>
   map snd (shown (spec_run toLowerCase_example
      (example_stretches @ [ErrorMessageShown (Object example_enoent) (Some ''shellcheck'')])
      (initial_provider :: (unit, unit, nat \<times> nat \<times> nat) provider)))
   = [ExecutableNotFoundMessage, ExecutableNotFoundMessage]"
  by (simp add: run_def spec_run_def updateConfiguration_begin_def startsProbe_def
        showShellCheckError_begin_def showShellCheckError_end_def setToolStatus_def
        handleDidChangeConfiguration_def spec_handleDidChangeConfiguration_def
        setResultCollections_def initial_provider_def js_def)

subsection \<open>Settings resolution\<close>

lemma fourDigits_SC: "startsWith s ''SC'' \<Longrightarrow> fourDigits s = None"
proof -
  assume "startsWith s ''SC''"
  then obtain r where "s = CHR ''S'' # CHR ''C'' # r"
    by (cases s; cases "tl s") (auto simp: startsWith_def)
  then show ?thesis by (simp add: fourDigits_def isDigit_def)
qed

lemma validErrorCodePattern_exec_spec:
  "validErrorCodePattern_exec s = (if spec_validCode s then Some (spec_stripSC s) else None)"
proof (cases "startsWith s ''SC''")
  case True
  then have "fourDigits s = None" by (rule fourDigits_SC)
  with True show ?thesis
    by (cases "fourDigits (drop 2 s)")
       (auto simp: validErrorCodePattern_exec_def spec_validCode_def spec_stripSC_def
          fourDigits_def split: if_splits)
next
  case False
  then show ?thesis
    by (auto simp: validErrorCodePattern_exec_def spec_validCode_def spec_stripSC_def
          fourDigits_def)
qed

lemma foldl_excludes:
  "foldl (\<lambda>filteredExcludes pattern.
              case validErrorCodePattern_exec pattern of
                None \<Rightarrow> filteredExcludes
              | Some m \<Rightarrow> if m \<noteq> [] then filteredExcludes @ [m] else filteredExcludes)
      acc xs = acc @ map spec_stripSC (filter spec_validCode xs)"
proof (induction xs arbitrary: acc)
  case Nil
  then show ?case by simp
next
  case (Cons x xs)
  have nonempty: "spec_validCode x \<Longrightarrow> spec_stripSC x \<noteq> []"
    by (auto simp: spec_validCode_def)
  have head: "(case validErrorCodePattern_exec x of
                None \<Rightarrow> acc
              | Some m \<Rightarrow> if m \<noteq> [] then acc @ [m] else acc)
        = acc @ map spec_stripSC (filter spec_validCode [x])"
    using nonempty by (simp add: validErrorCodePattern_exec_spec)
  show ?case
    by (simp only: foldl_Cons Cons.IH head) simp
qed

lemma filterExcludes_spec:
  "filterExcludes xs = map spec_stripSC (filter spec_validCode xs)"
  by (simp add: filterExcludes_def foldl_excludes)

text \<open>
  Claim C9. In every resolved settings snapshot each entry of the exclusion list is a
  string of exactly four digits: the list holds, in their order, the configured entries
  that are four digits after an optional \<open>SC\<close> prefix, with that prefix stripped; every
  other configured entry is dropped.
\<close>

theorem exclude_four_digits:
  "(\<forall>c \<in> set (exclude (getWorkspaceSettings sub exe section)). length c = 4 \<and> list_all isDigit c) \<and>
   exclude (getWorkspaceSettings sub exe section)
     = map spec_stripSC
         (filter spec_validCode (case exclude_key section of None \<Rightarrow> [] | Some xs \<Rightarrow> xs))"
  by (auto simp: getWorkspaceSettings_def Let_def filterExcludes_spec spec_validCode_def)

theorem exclude_four_digits_witness:
  "exclude (getWorkspaceSettings id \<lparr>path = ''shellcheck'', bundled = False\<rparr> example_section)
     = [''2086'', ''1090''] \<and>
   list_all (\<lambda>c. length c = 4 \<and> list_all isDigit c) [''2086'', ''1090'']"
  using exclude_four_digits [of id "\<lparr>path = ''shellcheck'', bundled = False\<rparr>" example_section]
  by (simp add: spec_validCode_def spec_stripSC_def startsWith_def isDigit_def)

subsection \<open>Argument vector\<close>

text \<open>
  Claim C4. For every lint run that starts the tool, the argument vector is, in this
  order: the output-format flag with the format; the exclusion flag with the comma-joined
  rule ids, only when the exclusion list is not empty; the shell-dialect flag with the
  dialect when the file extension is \<open>.bash\<close>, \<open>.ksh\<close> or \<open>.dash\<close>; the extra arguments
  of the settings, unchanged; and last the flag \<open>-\<close> for reading standard input.
\<close>

theorem runLint_args_order:
  "runLint_args (Some (Ok v)) outputFormat settings fileExt =
     Some ([''-f'', outputFormat]
           @ (if exclude settings = [] then [] else [''-e'', join '','' (exclude settings)])
           @ (if fileExt \<in> {''.bash'', ''.ksh'', ''.dash''} then [''-s'', drop 1 fileExt] else [])
           @ customArgs settings
           @ [''-''])"
  by (simp add: runLint_args_def Let_def)

theorem runLint_args_order_witness:
  "runLint_args (Some (Ok (0 :: nat, 9 :: nat, 0 :: nat))) ''json1''
      (example_settings\<lparr>exclude := [''2086'', ''1090''], customArgs := [''-x'', ''--norc'']\<rparr>)
      ''.bash''
     = Some [''-f'', ''json1'', ''-e'', ''2086,1090'', ''-s'', ''bash'', ''-x'', ''--norc'', ''-'']"
  using runLint_args_order [of "(0 :: nat, 9 :: nat, 0 :: nat)" "''json1''"
      "example_settings\<lparr>exclude := [''2086'', ''1090''], customArgs := [''-x'', ''--norc'']\<rparr>"
      "''.bash''"]
  by simp

subsection \<open>Debounced scheduling\<close>

lemma burst_pending:
  "delayers st key = Some (d, TimerPending t) \<Longrightarrow>
   delayers (burst key settings tasks st) key = Some (d, TimerPending (last (t # tasks)))
   \<and> executed (burst key settings tasks st) = executed st"
  unfolding burst_def
proof (induction tasks arbitrary: st t)
  case Nil
  then show ?case by simp
next
  case (Cons x xs)
  let ?st = "triggerLint key settings x st"
  have "delayers ?st key = Some (d, TimerPending x)" and "executed ?st = executed st"
    using Cons.prems by (simp_all add: triggerLint_def)
  with Cons.IH [of ?st x] show ?case by simp
qed

lemma burst_idle:
  assumes "tasks \<noteq> []"
    and "delayers st key = None \<or> (\<exists>d. delayers st key = Some (d, Idle))"
  shows "\<exists>d. delayers (burst key settings tasks st) key = Some (d, TimerPending (last tasks))
             \<and> executed (burst key settings tasks st) = executed st"
proof -
  from assms(1) obtain x xs where tasks: "tasks = x # xs" by (cases tasks) auto
  let ?st = "triggerLint key settings x st"
  from assms(2) obtain d where "delayers ?st key = Some (d, TimerPending x)"
    by (auto simp: triggerLint_def)
  moreover have "executed ?st = executed st" by (simp add: triggerLint_def Let_def)
  moreover have "burst key settings tasks st = burst key settings xs ?st"
    by (simp add: tasks burst_def)
  ultimately show ?thesis
    using burst_pending [of ?st key d x settings xs] by (auto simp: tasks)
qed

text \<open>
  Claim C3. For every non-empty burst of trigger calls for one document key that starts
  with no timer pending and no task in flight and that is over before the timer expires,
  nothing runs during the burst, and once the timer has expired and the task has
  completed exactly one task execution has resulted, that of the task supplied by the
  last call of the burst; the scheduler of the key is idle again.
\<close>

theorem burst_runs_last_task_once:
  assumes "tasks \<noteq> []"
    and "delayers st key = None \<or> (\<exists>d. delayers st key = Some (d, Idle))"
  shows "executed (burst key settings tasks st) = executed st \<and>
         executed (timerExpired key (burst key settings tasks st))
           = executed st @ [(key, last tasks)] \<and>
         executed (taskCompleted key (timerExpired key (burst key settings tasks st)))
           = executed st @ [(key, last tasks)] \<and>
         (\<exists>d. delayers (taskCompleted key (timerExpired key (burst key settings tasks st))) key
                = Some (d, Idle))"
proof -
  from burst_idle [OF assms] obtain d where
    "delayers (burst key settings tasks st) key = Some (d, TimerPending (last tasks))"
    "executed (burst key settings tasks st) = executed st"
    by blast
  then show ?thesis
    by (simp add: timerExpired_def taskCompleted_def)
qed

theorem burst_runs_last_task_once_witness:
  "[''echo $a'', ''echo $ab'', ''echo $abc''] \<noteq> [] \<and>
   executed (taskCompleted ''file:///a.sh'' (timerExpired ''file:///a.sh''
      (burst ''file:///a.sh'' example_settings [''echo $a'', ''echo $ab'', ''echo $abc'']
         \<lparr>delayers = Map.empty, executed = []\<rparr>)))
     = [(''file:///a.sh'', ''echo $abc'')] \<and>
   delayers (taskCompleted ''file:///a.sh'' (timerExpired ''file:///a.sh''
      (burst ''file:///a.sh'' example_settings [''echo $a'', ''echo $ab'', ''echo $abc'']
         \<lparr>delayers = Map.empty, executed = []\<rparr>))) ''file:///a.sh''
     = Some (250, Idle)"
proof -
  have ne: "[''echo $a'', ''echo $ab'', ''echo $abc''] \<noteq> []" by simp
  have idle: "delayers \<lparr>delayers = Map.empty, executed = ([] :: (string \<times> string) list)\<rparr> ''file:///a.sh'' = None
     \<or> (\<exists>d. delayers \<lparr>delayers = Map.empty, executed = ([] :: (string \<times> string) list)\<rparr> ''file:///a.sh'' = Some (d, Idle))"
    by simp
  show ?thesis
    using ne burst_runs_last_task_once [OF ne idle, of example_settings]
    by (simp add: burst_def triggerLint_def timerExpired_def taskCompleted_def Let_def)
qed

subsection \<open>Suppression command\<close>

lemma split_lines_after_nonempty: "split_lines_after cr s \<noteq> []"
  by (induction s arbitrary: cr) (auto split: list.splits)

lemma split_lines_single:
  "0x0A \<notin> set a \<Longrightarrow> 0x0D \<notin> set a \<Longrightarrow> split_lines a = [a]"
  unfolding split_lines_def
  by (induction a) auto

lemma split_lines_append:
  "0x0A \<notin> set a \<Longrightarrow> 0x0D \<notin> set a \<Longrightarrow>
   split_lines (a @ 0x0A # b) = a # split_lines b"
  unfolding split_lines_def
  by (induction a) auto

text \<open>
  Claim C8. For every document the provider handles, every rule id and every target line
  of the document, the suppression command inserts \<open># shellcheck disable=<RULE>\<close>, a line
  feed and the leading white space of the target line at the first non-white-space
  character of that line: afterwards the comment, indented like the target line, is the
  line immediately above the target line, whose content is unchanged, as is every other
  line. A line of a document holds no line break, and neither does a rule id.
\<close>

theorem disableCheckForLine_inserts_above:
  assumes "line (start r) < length doc"
    and "0x0A \<notin> set ruleId" and "0x0D \<notin> set ruleId"
    and "0x0A \<notin> set (doc ! line (start r))" and "0x0D \<notin> set (doc ! line (start r))"
  shows "disableCheckForLine True doc ruleId r =
           Inr (take (line (start r)) doc
                @ [takeWhile isWhitespace (doc ! line (start r))
                     @ js ''# shellcheck disable='' @ ruleId,
                   doc ! line (start r)]
                @ drop (Suc (line (start r))) doc)"
proof -
  let ?l = "doc ! line (start r)"
  let ?indent = "takeWhile isWhitespace ?l"
  let ?comment = "?indent @ js ''# shellcheck disable='' @ ruleId"
  have take_indent: "take (length ?indent) ?l = ?indent"
    by (metis append_eq_conv_conj takeWhile_dropWhile_id)
  have indent_sub: "set ?indent \<subseteq> set ?l"
    by (auto dest: set_takeWhileD)
  have lf: "0x0A \<notin> set ?comment" and cr: "0x0D \<notin> set ?comment"
    using assms(2-5) indent_sub by (auto simp: js_def)
  have "split_lines (?comment @ 0x0A # (?indent @ drop (length ?indent) ?l))
        = ?comment # split_lines (?indent @ drop (length ?indent) ?l)"
    using lf cr by (rule split_lines_append)
  moreover have "?indent @ drop (length ?indent) ?l = ?l"
    by (metis append_take_drop_id take_indent)
  moreover have "split_lines ?l = [?l]" using assms(4,5) by (rule split_lines_single)
  ultimately have sp:
    "split_lines (?indent @ (js ''# shellcheck disable='' @ ruleId @ [0x0A] @ ?indent)
                  @ drop (length ?indent) ?l)
       = [?comment, ?l]"
    by simp
  show ?thesis
    using assms(1) sp
    by (simp add: disableCheckForLine_def lineAt_def applyEdit_def TextEdit_insert_def Let_def
          take_indent)
qed

theorem disableCheckForLine_inserts_above_witness:
  "disableCheckForLine True [js ''if true; then'', js ''    echo $x'', js ''fi''] (js ''SC2086'')
      \<lparr>start = \<lparr>line = 1, character = 9\<rparr>, end' = \<lparr>line = 1, character = 11\<rparr>\<rparr>
     = Inr [js ''if true; then'', js ''    # shellcheck disable=SC2086'', js ''    echo $x'',
            js ''fi''] \<and>
   disableCheckForLine True [[0x09, 0xA0] @ js ''echo $x''] (js ''SC2086'')
      \<lparr>start = \<lparr>line = 0, character = 7\<rparr>, end' = \<lparr>line = 0, character = 9\<rparr>\<rparr>
     = Inr [[0x09, 0xA0] @ js ''# shellcheck disable=SC2086'', [0x09, 0xA0] @ js ''echo $x'']"
proof -
  have a1: "line (start \<lparr>start = \<lparr>line = 1, character = 9\<rparr>, end' = \<lparr>line = 1, character = 11\<rparr>\<rparr>)
        < length [js ''if true; then'', js ''    echo $x'', js ''fi'']"
    and a2: "0x0A \<notin> set (js ''SC2086'')" and a3: "0x0D \<notin> set (js ''SC2086'')"
    and a4: "0x0A \<notin> set ([js ''if true; then'', js ''    echo $x'', js ''fi'']
        ! line (start \<lparr>start = \<lparr>line = 1, character = 9\<rparr>, end' = \<lparr>line = 1, character = 11\<rparr>\<rparr>))"
    and a5: "0x0D \<notin> set ([js ''if true; then'', js ''    echo $x'', js ''fi'']
        ! line (start \<lparr>start = \<lparr>line = 1, character = 9\<rparr>, end' = \<lparr>line = 1, character = 11\<rparr>\<rparr>))"
    by (simp_all add: js_def)
  have b1: "line (start \<lparr>start = \<lparr>line = 0, character = 7\<rparr>, end' = \<lparr>line = 0, character = 9\<rparr>\<rparr>)
        < length [[0x09, 0xA0] @ js ''echo $x'']"
    and b4: "0x0A \<notin> set ([[0x09, 0xA0] @ js ''echo $x'']
        ! line (start \<lparr>start = \<lparr>line = 0, character = 7\<rparr>, end' = \<lparr>line = 0, character = 9\<rparr>\<rparr>))"
    and b5: "0x0D \<notin> set ([[0x09, 0xA0] @ js ''echo $x'']
        ! line (start \<lparr>start = \<lparr>line = 0, character = 7\<rparr>, end' = \<lparr>line = 0, character = 9\<rparr>\<rparr>))"
    by (simp_all add: js_def)
  show ?thesis
    using disableCheckForLine_inserts_above [OF a1 a2 a3 a4 a5]
      disableCheckForLine_inserts_above [OF b1 a2 a3 b4 b5]
    by (simp add: isWhitespace_def js_def)
qed

end
